theory Spec2Isabelle
  imports Complex_Main "HOL-Library.AList" "HOL-Library.Sublist"
begin

section \<open>Text and characters\<close>

text \<open>
  A Python \<open>str\<close> is a sequence of Unicode code points, and \<open>len\<close> counts code points.
  A character is modelled by its code point, a text by the list of its code points.
\<close>

type_synonym uchar = nat
type_synonym ustring = "uchar list"

section \<open>Star rating of a frequency rank\<close>

text \<open>
  \<open>get_star_rating_from_rank\<close> (inside \<open>calculate_three_category_frequency_statistics\<close>)
  and the template filter \<open>star_from_rank_filter\<close> are the same chain of comparisons.
  A rank is an integer or \<open>None\<close>.
\<close>

definition get_star_rating_from_rank :: "int option \<Rightarrow> nat" where
  "get_star_rating_from_rank rank =
     (case rank of
        None \<Rightarrow> 0
      | Some r \<Rightarrow>
          if r \<le> 1500 then 5
          else if r \<le> 5000 then 4
          else if r \<le> 15000 then 3
          else if r \<le> 30000 then 2
          else if r \<le> 60000 then 1
          else 0)"

definition star_from_rank_filter :: "int option \<Rightarrow> nat" where
  "star_from_rank_filter rank =
     (case rank of
        None \<Rightarrow> 0
      | Some r \<Rightarrow>
          if r \<le> 1500 then 5
          else if r \<le> 5000 then 4
          else if r \<le> 15000 then 3
          else if r \<le> 30000 then 2
          else if r \<le> 60000 then 1
          else 0)"

section \<open>Chunk splitter\<close>

text \<open>
  Python slicing \<open>xs[i:j]\<close> never raises: a negative index counts from the end, and
  every index is clipped to the range \<open>0..len(xs)\<close>.
\<close>

definition norm_index :: "nat \<Rightarrow> int \<Rightarrow> nat" where
  "norm_index n i = (if i < 0 then nat (max 0 (i + int n)) else min (nat i) n)"

definition py_slice :: "'a list \<Rightarrow> int \<Rightarrow> int \<Rightarrow> 'a list" where
  "py_slice xs i j =
     (let lo = norm_index (length xs) i; hi = norm_index (length xs) j
      in take (hi - lo) (drop lo xs))"

definition py_slice_from :: "'a list \<Rightarrow> int \<Rightarrow> 'a list" where
  "py_slice_from xs i = drop (norm_index (length xs) i) xs"

text \<open>
  \<open>s.rfind(c, k)\<close> for a one-character \<open>c\<close>: the highest index \<open>p\<close> at or after \<open>k\<close>
  with \<open>s[p] == c\<close>, and \<open>-1\<close> when there is none.
\<close>

definition rfind :: "ustring \<Rightarrow> uchar \<Rightarrow> int \<Rightarrow> int" where
  "rfind s c k =
     (case filter (\<lambda>p. s ! p = c) (rev [norm_index (length s) k ..< length s]) of
        [] \<Rightarrow> - 1
      | p # _ \<Rightarrow> int p)"

text \<open>
  One \<open>for punct in [...]\<close> loop of the source: the first listed character that occurs in
  the search window decides, at its last occurrence.
\<close>

fun first_rfind :: "ustring \<Rightarrow> int \<Rightarrow> uchar list \<Rightarrow> int option" where
  "first_rfind s k [] = None"
| "first_rfind s k (punct # rest) =
     (let punct_pos = rfind s punct k
      in if punct_pos \<noteq> - 1 then Some punct_pos else first_rfind s k rest)"

text \<open>
  The three character lists of the source, as code points: the sentence endings
  U+3002, U+FF01, U+FF1F, U+2026, U+300F, U+300D; the other punctuation U+3001, U+30FB,
  U+FF09, U+FF5D; and newline, space and the full-width space U+3000.
\<close>

definition sentence_endings :: "uchar list" where
  "sentence_endings = [12290, 65281, 65311, 8230, 12303, 12301]"

definition other_punctuation :: "uchar list" where
  "other_punctuation = [12289, 12539, 65289, 65373]"

definition whitespace_breaks :: "uchar list" where
  "whitespace_breaks = [10, 32, 12288]"

text \<open>The \<open>for ... else\<close> cascade: sentence endings, else other punctuation, else whitespace.\<close>

definition find_break :: "ustring \<Rightarrow> int \<Rightarrow> int option" where
  "find_break s k =
     (case first_rfind s k sentence_endings of
        Some p \<Rightarrow> Some p
      | None \<Rightarrow>
          (case first_rfind s k other_punctuation of
             Some p \<Rightarrow> Some p
           | None \<Rightarrow> first_rfind s k whitespace_breaks))"

text \<open>
  The \<open>while start < len(text)\<close> loop of \<open>_split_text_into_chunks\<close>. Nothing in the source
  bounds the number of iterations, so the loop is a partial function: \<open>None\<close> stands for a
  run that never returns. \<open>chunk_size\<close> is a Python integer and may be zero or negative.
\<close>

partial_function (option) split_loop ::
  "ustring \<Rightarrow> int \<Rightarrow> int \<Rightarrow> ustring list \<Rightarrow> ustring list option" where
  "split_loop text chunk_size start chunks =
     (if start < int (length text) then
        (let end = start + chunk_size in
         if end \<ge> int (length text) then Some (chunks @ [py_slice_from text start])
         else
           (let search_start = max start (end - 200);
                chunk_text = py_slice text start end;
                end' = (case find_break chunk_text (search_start - start) of
                          Some pos \<Rightarrow> start + pos + 1
                        | None \<Rightarrow> end)
            in split_loop text chunk_size end' (chunks @ [py_slice text start end'])))
      else Some chunks)"

definition split_text_into_chunks :: "ustring \<Rightarrow> int \<Rightarrow> ustring list option" where
  "split_text_into_chunks text chunk_size =
     (if int (length text) \<le> chunk_size then Some [text]
      else split_loop text chunk_size 0 [])"

section \<open>Frequency resolver\<close>

text \<open>
  The answer of the dictionary service to \<open>POST /termEntries\<close>, as far as
  \<open>get_yomitan_frequency_data\<close> reads it. A headword may carry a \<open>term\<close> and a \<open>reading\<close>;
  a frequency item that is a dictionary with key \<open>frequency\<close> has \<open>frequency = Some rank\<close>,
  any other item has \<open>frequency = None\<close>; a missing or empty \<open>headwords\<close> or
  \<open>frequencies\<close> list is the empty list.
\<close>

record headword =
  hw_term :: "ustring option"
  reading :: "ustring option"

record freq_item =
  frequency :: "int option"
  dictionary :: "ustring option"

record dictionary_entry =
  headwords :: "headword list"
  frequencies :: "freq_item list"

text \<open>
  What the request does: it raises (a \<open>RequestException\<close> or any other exception, also
  raised by a body that is not JSON), or it returns a status code and a body. The body is
  \<open>None\<close> when it is empty or has no key \<open>dictionaryEntries\<close>.
\<close>

datatype term_response =
  TermRequestException
| TermOtherException
| TermHttpResponse int "dictionary_entry list option"

text \<open>The returned dictionary: \<open>{'found': False}\<close> or \<open>{'rank': r, 'source': s, 'found': True}\<close>.\<close>

datatype frequency_data = NotFound | Found int ustring

fun fd_found :: "frequency_data \<Rightarrow> bool" where
  "fd_found NotFound = False"
| "fd_found (Found r s) = True"

fun fd_rank :: "frequency_data \<Rightarrow> int option" where
  "fd_rank NotFound = None"
| "fd_rank (Found r s) = Some r"

fun fd_source :: "frequency_data \<Rightarrow> ustring option" where
  "fd_source NotFound = None"
| "fd_source (Found r s) = Some s"

text \<open>
  The global \<open>frequency_cache\<close>: \<open>None\<close> at start, then a dictionary from word to rank and
  source, kept in insertion order.
\<close>

type_synonym frequency_cache = "(ustring \<times> int \<times> ustring) list option"

definition cache_lookup :: "frequency_cache \<Rightarrow> ustring \<Rightarrow> (int \<times> ustring) option" where
  "cache_lookup cache w = (case cache of None \<Rightarrow> None | Some al \<Rightarrow> map_of al w)"

text \<open>The loop over the headwords of one entry, with its two \<open>break\<close>s.\<close>

fun exact_match_found :: "ustring \<Rightarrow> headword list \<Rightarrow> bool" where
  "exact_match_found w [] = False"
| "exact_match_found w (h # hs) =
     (if hw_term h = Some w then True
      else if reading h = Some w then True
      else exact_match_found w hs)"

text \<open>The string \<open>'Unknown'\<close>, the default of \<open>freq_item.get('dictionary', 'Unknown')\<close>.\<close>

definition Unknown_source :: ustring where
  "Unknown_source = [85, 110, 107, 110, 111, 119, 110]"

text \<open>
  The loop over the frequency items of one entry; the first argument is
  \<open>(best_rank, best_source)\<close>, \<open>None\<close> while \<open>best_rank is None\<close>.
\<close>

fun scan_frequencies :: "(int \<times> ustring) option \<Rightarrow> freq_item list \<Rightarrow> (int \<times> ustring) option" where
  "scan_frequencies best [] = best"
| "scan_frequencies best (f # fs) =
     (case frequency f of
        None \<Rightarrow> scan_frequencies best fs
      | Some rank \<Rightarrow>
          (let source = (case dictionary f of None \<Rightarrow> Unknown_source | Some d \<Rightarrow> d)
           in if (case best of None \<Rightarrow> True | Some (best_rank, best_source) \<Rightarrow> rank < best_rank)
              then scan_frequencies (Some (rank, source)) fs
              else scan_frequencies best fs))"

text \<open>The loop over \<open>data['dictionaryEntries']\<close>.\<close>

fun scan_entries ::
  "ustring \<Rightarrow> (int \<times> ustring) option \<Rightarrow> dictionary_entry list \<Rightarrow> (int \<times> ustring) option" where
  "scan_entries w best [] = best"
| "scan_entries w best (e # es) =
     (if headwords e \<noteq> [] then
        (if exact_match_found w (headwords e) \<and> frequencies e \<noteq> []
         then scan_entries w (scan_frequencies best (frequencies e)) es
         else scan_entries w best es)
      else scan_entries w best es)"

text \<open>
  \<open>get_yomitan_frequency_data\<close>: the service is asked only when the word is not cached; the
  result is cached only when a rank was found. The function returns the answer and the
  cache after the call.
\<close>

definition get_yomitan_frequency_data ::
  "(ustring \<Rightarrow> term_response) \<Rightarrow> frequency_cache \<Rightarrow> ustring \<Rightarrow> frequency_data \<times> frequency_cache" where
  "get_yomitan_frequency_data service cache w =
     (case cache_lookup cache w of
        Some (rank, source) \<Rightarrow> (Found rank source, cache)
      | None \<Rightarrow>
          (case service w of
             TermRequestException \<Rightarrow> (NotFound, cache)
           | TermOtherException \<Rightarrow> (NotFound, cache)
           | TermHttpResponse status_code body \<Rightarrow>
               if status_code \<noteq> 200 then (NotFound, cache)
               else
                 (case body of
                    None \<Rightarrow> (NotFound, cache)
                  | Some entries \<Rightarrow>
                      (case scan_entries w None entries of
                         Some (best_rank, best_source) \<Rightarrow>
                           (Found best_rank best_source,
                            Some (AList.update w (best_rank, best_source)
                                    (case cache of None \<Rightarrow> [] | Some al \<Rightarrow> al)))
                       | None \<Rightarrow> (NotFound, cache)))))"

section \<open>Word entries, counting and deduplication\<close>

text \<open>
  A word entry, the dictionary built for each unique word. \<open>original_words\<close> is the list
  the deduplication adds when it merges entries.
\<close>

record word_entry =
  word :: ustring
  count :: int
  has_frequency :: bool
  rank :: "int option"
  source :: "ustring option"
  in_vocabulary :: bool
  is_ignored :: bool
  original_word :: "ustring option"
  original_words :: "ustring list option"

text \<open>
  \<open>Counter(words)\<close>: a dictionary from word to number of occurrences, in the order of the
  first occurrences.
\<close>

fun counter_add :: "(ustring \<times> int) list \<Rightarrow> ustring \<Rightarrow> (ustring \<times> int) list" where
  "counter_add [] w = [(w, 1)]"
| "counter_add ((k, c) # kcs) w =
     (if k = w then (k, c + 1) # kcs else (k, c) # counter_add kcs w)"

definition Counter :: "ustring list \<Rightarrow> (ustring \<times> int) list" where
  "Counter words = foldl counter_add [] words"

text \<open>
  \<open>deduplicate_word_list\<close>. \<open>word_dict\<close> maps a display word to a copy of the first entry
  with that word; its values, in insertion order, are the list below. An entry whose word
  is already there adds its count to the stored entry and its original word to
  \<open>original_words\<close>.
\<close>

definition merge_entry :: "word_entry \<Rightarrow> word_entry \<Rightarrow> word_entry" where
  "merge_entry existing entry =
     existing
       \<lparr> count := count existing + count entry,
         original_words :=
           Some ((case original_words existing of
                    None \<Rightarrow> [case original_word existing of None \<Rightarrow> word entry | Some ow \<Rightarrow> ow]
                  | Some ows \<Rightarrow> ows)
                 @ [case original_word entry of None \<Rightarrow> word entry | Some ow \<Rightarrow> ow]) \<rparr>"

fun word_dict_put :: "word_entry list \<Rightarrow> word_entry \<Rightarrow> word_entry list" where
  "word_dict_put [] entry = [entry]"
| "word_dict_put (existing # rest) entry =
     (if word existing = word entry then merge_entry existing entry # rest
      else existing # word_dict_put rest entry)"

definition deduplicate_word_list :: "word_entry list \<Rightarrow> word_entry list" where
  "deduplicate_word_list word_list = foldl word_dict_put [] word_list"

text \<open>\<open>xs.sort(key=lambda x: x['count'], reverse=True)\<close>: a stable sort, highest count first.\<close>

definition sort_by_count :: "word_entry list \<Rightarrow> word_entry list" where
  "sort_by_count xs = sort_key (\<lambda>x. - count x) xs"

section \<open>Floats\<close>

text \<open>
  Python floats are IEEE 754 binary64 numbers. A finite float is modelled by the rational
  number it denotes; an operation returns the exact result rounded to the nearest float
  with a 53-bit significand, ties to the even significand. The exponent range is not
  modelled: the numbers here are quotients of token counts and their products with 100.
\<close>

function floor_log2 :: "int \<Rightarrow> int" where
  "floor_log2 n = (if n < 2 then 0 else 1 + floor_log2 (n div 2))"
  by pat_completeness auto
termination
  by (relation "measure nat") auto

declare floor_log2.simps [simp del]

definition pow2 :: "int \<Rightarrow> rat" where
  "pow2 e = (if 0 \<le> e then 2 ^ nat e else 1 / 2 ^ nat (- e))"

text \<open>\<open>round_half_even n d\<close> is the integer nearest to \<open>n / d\<close>, for \<open>n \<ge> 0\<close> and \<open>d > 0\<close>.\<close>

definition round_half_even :: "int \<Rightarrow> int \<Rightarrow> int" where
  "round_half_even n d =
     (let q = n div d; r = n mod d
      in if 2 * r < d then q
         else if d < 2 * r then q + 1
         else if even q then q else q + 1)"

text \<open>
  The float nearest to \<open>n / d\<close> for positive \<open>n\<close> and \<open>d\<close>: with \<open>2 ^ e \<le> n / d < 2 ^ (e + 1)\<close>,
  the quotient is rounded to a multiple of \<open>2 ^ (e - 52)\<close>.
\<close>

definition nearest_float_pos :: "int \<Rightarrow> int \<Rightarrow> rat" where
  "nearest_float_pos n d =
     (let a = floor_log2 n - floor_log2 d;
          e = (if (if 0 \<le> a then d * 2 ^ nat a \<le> n else d \<le> n * 2 ^ nat (- a)) then a else a - 1);
          s = e - 52;
          m = (if 0 \<le> s then round_half_even n (d * 2 ^ nat s)
               else round_half_even (n * 2 ^ nat (- s)) d)
      in of_int m * pow2 s)"

definition nearest_float :: "rat \<Rightarrow> rat" where
  "nearest_float x =
     (let (p, q) = quotient_of x
      in if p = 0 then 0
         else if 0 < p then nearest_float_pos p q
         else - nearest_float_pos (- p) q)"

text \<open>\<open>a / b\<close> on two integers (the correctly rounded quotient) and \<open>x * k\<close> on a float and an integer.\<close>

definition py_truediv :: "int \<Rightarrow> int \<Rightarrow> rat" where
  "py_truediv a b = nearest_float (of_int a / of_int b)"

definition py_float_mul :: "rat \<Rightarrow> int \<Rightarrow> rat" where
  "py_float_mul x k = nearest_float (x * of_int k)"

section \<open>Analysis of a token list\<close>

text \<open>
  The labels of \<open>calculate_difficulty_level\<close>: a digit, the star U+2605, a space and the name.
\<close>

definition Beginner_label :: ustring where
  "Beginner_label = [49, 9733, 32, 66, 101, 103, 105, 110, 110, 101, 114]"

definition Elementary_label :: ustring where
  "Elementary_label = [50, 9733, 32, 69, 108, 101, 109, 101, 110, 116, 97, 114, 121]"

definition Intermediate_label :: ustring where
  "Intermediate_label = [51, 9733, 32, 73, 110, 116, 101, 114, 109, 101, 100, 105, 97, 116, 101]"

definition Advanced_label :: ustring where
  "Advanced_label = [52, 9733, 32, 65, 100, 118, 97, 110, 99, 101, 100]"

definition Expert_label :: ustring where
  "Expert_label = [53, 9733, 32, 69, 120, 112, 101, 114, 116]"

definition calculate_difficulty_level :: "rat \<Rightarrow> ustring" where
  "calculate_difficulty_level comprehension_rate =
     (if comprehension_rate \<ge> 95 then Beginner_label
      else if comprehension_rate \<ge> 85 then Elementary_label
      else if comprehension_rate \<ge> 75 then Intermediate_label
      else if comprehension_rate \<ge> 65 then Advanced_label
      else Expert_label)"

text \<open>
  The body of the loop \<open>for word, count in word_counts.items()\<close> of
  \<open>analyze_text_vocabulary\<close>. The state is the frequency cache and the four lists
  \<open>all_words_with_frequency\<close>, \<open>known_words\<close>, \<open>unknown_words\<close> and \<open>ignored_words_with_data\<close>.
\<close>

type_synonym analysis_lists =
  "frequency_cache \<times> word_entry list \<times> word_entry list \<times> word_entry list \<times> word_entry list"

definition classify_word ::
  "(ustring \<Rightarrow> term_response) \<Rightarrow> ustring set \<Rightarrow> ustring set \<Rightarrow>
     analysis_lists \<Rightarrow> ustring \<times> int \<Rightarrow> analysis_lists" where
  "classify_word service vocabulary_set ignored_words st wc =
     (case st of (cache, all_words_with_frequency, known_words, unknown_words, ignored_words_with_data) \<Rightarrow>
      case wc of (w, c) \<Rightarrow>
      case get_yomitan_frequency_data service cache w of (freq_data, cache') \<Rightarrow>
        (let is_in_vocab = (w \<in> vocabulary_set);
             is_ignored = (w \<in> ignored_words);
             word_entry = \<lparr> word = w, count = c, has_frequency = fd_found freq_data,
                            rank = fd_rank freq_data, source = fd_source freq_data,
                            in_vocabulary = is_in_vocab, is_ignored = is_ignored,
                            original_word = Some w, original_words = None \<rparr>
         in if is_ignored then
              (cache', all_words_with_frequency @ [word_entry], known_words, unknown_words,
               ignored_words_with_data @ [word_entry])
            else if is_in_vocab then
              (cache', all_words_with_frequency @ [word_entry], known_words @ [word_entry],
               unknown_words, ignored_words_with_data)
            else
              (cache', all_words_with_frequency @ [word_entry], known_words,
               unknown_words @ [word_entry], ignored_words_with_data)))"

text \<open>
  The result of \<open>analyze_text_vocabulary\<close>, without \<open>star_statistics\<close> and
  \<open>parsing_info\<close>. \<open>comprehension_rate\<close> is a float, or the integer 0.
\<close>

record analysis_result =
  total_words :: nat
  unique_words :: nat
  all_words_analyzed :: "word_entry list"
  known_words :: "word_entry list"
  unknown_words :: "word_entry list"
  ignored_words :: "word_entry list"
  known_word_count :: int
  unknown_word_count :: int
  ignored_word_count :: int
  total_processed_words :: int
  comprehension_rate :: rat
  difficulty_level :: ustring

text \<open>
  \<open>analyze_text_vocabulary\<close> from the point where the tokens are there: \<open>words\<close> is the list
  returned by \<open>tokenize_japanese_text(text_content)\<close>, \<open>ignored_set\<close> the set returned by
  \<open>load_ignored_words()\<close> (the local variable \<open>ignored_words\<close> of the source). The known, the unknown and the complete list are deduplicated, the
  ignored list is not; all four are sorted. The progress messages are left out.
\<close>

definition analyze_text_vocabulary ::
  "(ustring \<Rightarrow> term_response) \<Rightarrow> frequency_cache \<Rightarrow> ustring set \<Rightarrow> ustring set \<Rightarrow>
     ustring list \<Rightarrow> analysis_result \<times> frequency_cache" where
  "analyze_text_vocabulary service cache vocabulary_set ignored_set words =
     (let word_counts = Counter words
      in case foldl (classify_word service vocabulary_set ignored_set) (cache, [], [], [], []) word_counts of
           (cache', all0, known0, unknown0, ignored0) \<Rightarrow>
             (let all_words_with_frequency = sort_by_count (deduplicate_word_list all0);
                  known = sort_by_count (deduplicate_word_list known0);
                  unknown = sort_by_count (deduplicate_word_list unknown0);
                  ignored_words_with_data = sort_by_count ignored0;
                  kwc = sum_list (map count known);
                  uwc = sum_list (map count unknown);
                  iwc = sum_list (map count ignored_words_with_data);
                  tpw = kwc + uwc;
                  rate = (if tpw > 0 then py_float_mul (py_truediv kwc tpw) 100 else 0)
              in (\<lparr> total_words = length words,
                     unique_words = length word_counts,
                     all_words_analyzed = all_words_with_frequency,
                     known_words = known,
                     unknown_words = unknown,
                     ignored_words = ignored_words_with_data,
                     known_word_count = kwc,
                     unknown_word_count = uwc,
                     ignored_word_count = iwc,
                     total_processed_words = tpw,
                     comprehension_rate = rate,
                     difficulty_level = calculate_difficulty_level rate \<rparr>,
                  cache')))"

section \<open>The frequency resolver as specified\<close>

text \<open>
  The reading of the specification for the frequency resolver, to compare the loops
  against: the pairs of rank and source attached to entries that have a headword whose
  term or reading is exactly the word, and what it means to return the lowest of them.
\<close>

definition freq_source :: "freq_item \<Rightarrow> ustring" where
  "freq_source f = (case dictionary f of None \<Rightarrow> Unknown_source | Some d \<Rightarrow> d)"

definition spec_exact_entry :: "ustring \<Rightarrow> dictionary_entry \<Rightarrow> bool" where
  "spec_exact_entry w e = (\<exists>h \<in> set (headwords e). hw_term h = Some w \<or> reading h = Some w)"

definition spec_qualifying :: "ustring \<Rightarrow> dictionary_entry list \<Rightarrow> (int \<times> ustring) set" where
  "spec_qualifying w es =
     {(r, s). \<exists>e \<in> set es. spec_exact_entry w e
                \<and> (\<exists>f \<in> set (frequencies e). frequency f = Some r \<and> s = freq_source f)}"

definition spec_lowest :: "(int \<times> ustring) set \<Rightarrow> (int \<times> ustring) option \<Rightarrow> bool" where
  "spec_lowest S res =
     (case res of
        None \<Rightarrow> S = {}
      | Some (r, s) \<Rightarrow> (r, s) \<in> S \<and> (\<forall>(r', s') \<in> S. r \<le> r'))"

section \<open>Whitespace\<close>

text \<open>
  The characters for which \<open>str.isspace()\<close> holds; \<open>str.strip()\<close> removes exactly these from
  both ends, and \<open>\s\<close> in a regular expression on \<open>str\<close> matches exactly these.
\<close>

definition py_isspace :: "uchar \<Rightarrow> bool" where
  "py_isspace c \<longleftrightarrow>
     (9 \<le> c \<and> c \<le> 13) \<or> (28 \<le> c \<and> c \<le> 32) \<or> c = 133 \<or> c = 160 \<or> c = 5760
     \<or> (8192 \<le> c \<and> c \<le> 8202) \<or> c = 8232 \<or> c = 8233 \<or> c = 8239 \<or> c = 8287 \<or> c = 12288"

definition py_strip :: "ustring \<Rightarrow> ustring" where
  "py_strip s = rev (dropWhile py_isspace (rev (dropWhile py_isspace s)))"

section \<open>Fallback tokenizer\<close>

text \<open>
  The adjectives of \<open>common_i_adjectives\<close>, in the order of the source text. The source holds
  them in a set, whose iteration order is not fixed; no adjective is a prefix of another one,
  so at most one of them matches at a position and the order does not matter.
\<close>

definition common_i_adjectives :: "ustring list" where
  "common_i_adjectives =
     [[29105, 12356], [20919, 12383, 12356], [26262, 12363, 12356], [28092, 12375, 12356],
      [28201, 12363, 12356], [22266, 12356], [26580, 12425, 12363, 12356], [30828, 12356],
      [36575, 12425, 12363, 12356], [37325, 12356], [36605, 12356], [21402, 12356],
      [34180, 12356], [22826, 12356], [32048, 12356], [39640, 12356], [20302, 12356],
      [38263, 12356], [30701, 12356], [24195, 12356], [29421, 12356], [26032, 12375, 12356],
      [21476, 12356], [33509, 12356], [32654, 12375, 12356], [21487, 24859, 12356],
      [22823, 12365, 12356], [23567, 12373, 12356], [22810, 12356], [23569, 12394, 12356],
      [26089, 12356], [36933, 12356], [36895, 12356], [23433, 12356], [39640, 12356],
      [33391, 12356], [24746, 12356], [27491, 12375, 12356], [38291, 36949, 12356],
      [21361, 12394, 12356], [27005, 12375, 12356], [24754, 12375, 12356],
      [23305, 12375, 12356], [33510, 12375, 12356], [30171, 12356], [38627, 12375, 12356],
      [26131, 12375, 12356], [24537, 12375, 12356], [26247, 12356], [38754, 30333, 12356],
      [35440, 12414, 12425, 12394, 12356], [29645, 12375, 12356], [26222, 36890, 12356],
      [30496, 12356], [30130, 12428, 12356], [20803, 27671, 12356], [20581, 24247, 12356]]"

text \<open>The inner \<open>for adj in common_i_adjectives\<close>: the adjective that the rest of the text starts with.\<close>

definition match_adjective :: "ustring \<Rightarrow> ustring option" where
  "match_adjective s = find (\<lambda>adj. take (length adj) s = adj) common_i_adjectives"

text \<open>
  The \<open>while i < len(text)\<close> loop of \<open>_simple_japanese_tokenize\<close>, on the rest \<open>text[i:]\<close> of the
  text. Every round consumes at least one character.
\<close>

function tokenize_from :: "ustring \<Rightarrow> ustring list" where
  "tokenize_from [] = []"
| "tokenize_from (c # cs) =
     (case match_adjective (c # cs) of
        Some adj \<Rightarrow> adj # tokenize_from (drop (length adj) (c # cs))
      | None \<Rightarrow> if py_isspace c then tokenize_from cs else [c] # tokenize_from cs)"
  by pat_completeness auto
termination
proof (relation "measure length", goal_cases)
  case (4 c cs adj)
  then have "adj \<in> set common_i_adjectives"
    by (auto simp: match_adjective_def find_Some_iff)
  then have "adj \<noteq> []"
    by (auto simp: common_i_adjectives_def)
  then show ?case
    by simp
qed simp_all

definition simple_japanese_tokenize :: "ustring \<Rightarrow> ustring list" where
  "simple_japanese_tokenize text = (if text = [] then [] else tokenize_from text)"

section \<open>Tokenizer client\<close>

text \<open>
  A parsed JSON value. Numbers are integers here: the code only tests a number for being
  zero. A dictionary is the list of its keys and values, with distinct keys.
\<close>

datatype json =
  JNull
| JBool bool
| JNum int
| JStr ustring
| JList "json list"
| JDict "(ustring \<times> json) list"

text \<open>
  What \<open>requests.post\<close> does: it raises one of the exceptions the function catches, or it
  returns a status code; the body is \<open>None\<close> when \<open>response.json()\<close> raises.
\<close>

datatype tokenize_response =
  Timeout
| ConnectionError
| RequestException
| OtherException
| HttpResponse int "json option"

fun truthy :: "json \<Rightarrow> bool" where
  "truthy JNull = False"
| "truthy (JBool b) = b"
| "truthy (JNum n) = (n \<noteq> 0)"
| "truthy (JStr s) = (s \<noteq> [])"
| "truthy (JList xs) = (xs \<noteq> [])"
| "truthy (JDict kvs) = (kvs \<noteq> [])"

text \<open>The keys \<open>'text'\<close> and \<open>'content'\<close>.\<close>

definition key_text :: ustring where
  "key_text = [116, 101, 120, 116]"

definition key_content :: ustring where
  "key_content = [99, 111, 110, 116, 101, 110, 116]"

text \<open>
  \<open>''.join([option.get('text', '') for option in segment if isinstance(option, dict)])\<close>:
  \<open>None\<close> when the join raises a \<open>TypeError\<close> because a \<open>text\<close> is not a string.
\<close>

fun join_option_texts :: "json list \<Rightarrow> ustring option" where
  "join_option_texts [] = Some []"
| "join_option_texts (JDict kvs # options) =
     (case (case map_of kvs key_text of None \<Rightarrow> Some [] | Some (JStr s) \<Rightarrow> Some s | Some _ \<Rightarrow> None) of
        None \<Rightarrow> None
      | Some t \<Rightarrow>
          (case join_option_texts options of None \<Rightarrow> None | Some ts \<Rightarrow> Some (t @ ts)))"
| "join_option_texts (_ # options) = join_option_texts options"

text \<open>The loop over the segments of one \<open>content\<close> list.\<close>

fun segment_words :: "json list \<Rightarrow> ustring list option" where
  "segment_words [] = Some []"
| "segment_words (JList (option # options) # segments) =
     (case join_option_texts (option # options) of
        None \<Rightarrow> None
      | Some complete_word \<Rightarrow>
          (case segment_words segments of
             None \<Rightarrow> None
           | Some ws \<Rightarrow> Some (if complete_word \<noteq> [] then complete_word # ws else ws)))"
| "segment_words (_ # segments) = segment_words segments"

text \<open>
  \<open>for i, segment in enumerate(content_array)\<close>: a list is walked through; a string or a
  dictionary yields only strings, which are no segments; anything else is not iterable and
  raises a \<open>TypeError\<close>.
\<close>

fun content_words :: "json \<Rightarrow> ustring list option" where
  "content_words (JList segments) = segment_words segments"
| "content_words (JStr s) = Some []"
| "content_words (JDict kvs) = Some []"
| "content_words _ = None"

text \<open>The loop over the items of the response.\<close>

fun response_words :: "json list \<Rightarrow> ustring list option" where
  "response_words [] = Some []"
| "response_words (JDict kvs # items) =
     (case (case map_of kvs key_content of None \<Rightarrow> Some [] | Some content_array \<Rightarrow> content_words content_array) of
        None \<Rightarrow> None
      | Some ws \<Rightarrow>
          (case response_words items of None \<Rightarrow> None | Some rest \<Rightarrow> Some (ws @ rest)))"
| "response_words (_ # items) = response_words items"

text \<open>
  The part of \<open>_tokenize_single_chunk\<close> that reads a parsed body; \<open>None\<close> when it raises.
  In \<open>result and len(result) > 0 and isinstance(result, list)\<close> a true boolean or a number
  other than zero makes \<open>len\<close> raise. The \<open>elif isinstance(result, list)\<close> branch is reached
  only by the empty list, where its loop does nothing.
\<close>

fun extract_words :: "json \<Rightarrow> ustring list option" where
  "extract_words (JList items) = (if items \<noteq> [] then response_words items else Some [])"
| "extract_words (JBool b) = (if b then None else Some [])"
| "extract_words (JNum n) = (if n \<noteq> 0 then None else Some [])"
| "extract_words _ = Some []"

text \<open>
  The state the client touches: the global counter \<open>active_yomitan_operations\<close>, and the list
  of the requests posted to the tokenize endpoint so far, each with its \<open>text\<close> and
  \<open>scanLength\<close>. The service is a function from the requests posted up to and including the
  current one to what the current one does.
\<close>

record client_state =
  active_yomitan_operations :: int
  posted :: "(ustring \<times> int) list"

type_synonym tokenize_service = "(ustring \<times> int) list \<Rightarrow> tokenize_response"

definition tokenize_single_chunk ::
  "tokenize_service \<Rightarrow> client_state \<Rightarrow> ustring \<Rightarrow> int \<Rightarrow> (ustring list \<times> bool) \<times> client_state" where
  "tokenize_single_chunk service st text max_scan_length =
     (let requests = posted st @ [(text, max_scan_length)];
          active = active_yomitan_operations st + 1;
          outcome =
            (case service requests of
               HttpResponse status_code body \<Rightarrow>
                 if status_code = 200 then
                   (case body of
                      None \<Rightarrow> (simple_japanese_tokenize text, True)
                    | Some result \<Rightarrow>
                        (case extract_words result of
                           None \<Rightarrow> (simple_japanese_tokenize text, True)
                         | Some ws \<Rightarrow> (ws, True)))
                 else ([], False)
             | Timeout \<Rightarrow> (simple_japanese_tokenize text, True)
             | ConnectionError \<Rightarrow> (simple_japanese_tokenize text, True)
             | RequestException \<Rightarrow> (simple_japanese_tokenize text, True)
             | OtherException \<Rightarrow> (simple_japanese_tokenize text, True))
      in (outcome, \<lparr> active_yomitan_operations = max 0 (active - 1), posted = requests \<rparr>))"

text \<open>
  \<open>tokenize_with_yomitan_api\<close>. \<open>text\<close> may be \<open>None\<close>, \<open>chunk_size\<close> defaults to
  \<open>YOMITAN_CHUNK_SIZE\<close>. The result is \<open>None\<close> when the chunk splitter does not return. The
  progress messages are left out.
\<close>

definition YOMITAN_CHUNK_SIZE :: int where
  "YOMITAN_CHUNK_SIZE = 300"

definition tokenize_chunk_step ::
  "tokenize_service \<Rightarrow> int \<Rightarrow> ustring list \<times> client_state \<Rightarrow> ustring \<Rightarrow> ustring list \<times> client_state" where
  "tokenize_chunk_step service max_scan_length acc chunk =
     (case acc of (all_words, st) \<Rightarrow>
      case tokenize_single_chunk service st chunk max_scan_length of
        ((chunk_words, success), st') \<Rightarrow>
          if \<not> success then (all_words, st') else (all_words @ chunk_words, st'))"

definition tokenize_with_yomitan_api ::
  "tokenize_service \<Rightarrow> client_state \<Rightarrow> ustring option \<Rightarrow> int \<Rightarrow> int option \<Rightarrow>
     ((ustring list \<times> bool) \<times> client_state) option" where
  "tokenize_with_yomitan_api service st text max_scan_length chunk_size =
     (let chunk_size = (case chunk_size of None \<Rightarrow> YOMITAN_CHUNK_SIZE | Some n \<Rightarrow> n)
      in case text of
           None \<Rightarrow> Some (([], True), st)
         | Some t \<Rightarrow>
             if t = [] \<or> py_strip t = [] then Some (([], True), st)
             else if int (length t) \<le> chunk_size
             then Some (tokenize_single_chunk service st t max_scan_length)
             else
               (case split_text_into_chunks t chunk_size of
                  None \<Rightarrow> None
                | Some chunks \<Rightarrow>
                    (case foldl (tokenize_chunk_step service max_scan_length) ([], st) chunks of
                       (all_words, st') \<Rightarrow> Some ((all_words, length all_words > 0), st'))))"

section \<open>Token filter\<close>

text \<open>
  The character class of the two symbol patterns of \<open>filter_japanese_tokens\<close>: the characters
  written out (both patterns list the same ones, in different orders), \<open>\s\<close>, the hyphen,
  and the ranges U+2000-U+206F, U+2E00-U+2E7F, U+3000-U+303F and U+FF00-U+FFEF.
\<close>

definition symbol_chars :: "uchar list" where
  "symbol_chars =
     [12290, 12289, 65281, 65311, 12300, 12301, 12302, 12303, 65288, 65289, 12539, 8230,
      12540, 65374, 12316, 9825, 9829, 9733, 9734, 9671, 9670, 9632, 9633, 9642, 9643, 9679,
      9675, 9678, 9650, 9651, 9660, 9661, 9664, 9654, 9650, 9660, 8592, 8594, 8593, 8595,
      9834, 9835, 8251]"

definition is_symbol :: "uchar \<Rightarrow> bool" where
  "is_symbol c \<longleftrightarrow>
     c \<in> set symbol_chars \<or> py_isspace c \<or> c = 45
     \<or> (8192 \<le> c \<and> c \<le> 8303) \<or> (11776 \<le> c \<and> c \<le> 11903)
     \<or> (12288 \<le> c \<and> c \<le> 12351) \<or> (65280 \<le> c \<and> c \<le> 65519)"

text \<open>Hiragana U+3040-U+309F, katakana U+30A0-U+30FF, and the ideographs U+4E00-U+9FAF.\<close>

definition is_hiragana :: "uchar \<Rightarrow> bool" where
  "is_hiragana c \<longleftrightarrow> 12352 \<le> c \<and> c \<le> 12447"

definition is_katakana :: "uchar \<Rightarrow> bool" where
  "is_katakana c \<longleftrightarrow> 12448 \<le> c \<and> c \<le> 12543"

definition is_japanese :: "uchar \<Rightarrow> bool" where
  "is_japanese c \<longleftrightarrow> is_hiragana c \<or> is_katakana c \<or> (19968 \<le> c \<and> c \<le> 40879)"

text \<open>
  \<open>re.match(r'^...$', word)\<close>: \<open>$\<close> matches at the end of the word and also just before a
  newline that ends the word, so the pattern between \<open>^\<close> and \<open>$\<close> has to match the whole
  word or the word without its final newline.
\<close>

definition match_to_end :: "(ustring \<Rightarrow> bool) \<Rightarrow> ustring \<Rightarrow> bool" where
  "match_to_end P w \<longleftrightarrow> P w \<or> (w \<noteq> [] \<and> last w = 10 \<and> P (butlast w))"

definition one_or_more :: "(uchar \<Rightarrow> bool) \<Rightarrow> ustring \<Rightarrow> bool" where
  "one_or_more cls u \<longleftrightarrow> u \<noteq> [] \<and> list_all cls u"

text \<open>The characters of the particle string, of \<open>important_single\<close>, of the ending class, and \<open>allowed_short\<close>.\<close>

definition particle_chars :: "uchar list" where
  "particle_chars =
     [12399, 12434, 12395, 12364, 12391, 12392, 12420, 12363, 12398, 12418, 12390, 12384,
      12424, 12397, 12394, 12434, 12428, 12375, 12383, 12387, 12388, 12367, 12368, 12377,
      12416, 12406, 12396]"

definition important_single :: "ustring list" where
  "important_single =
     [[12356], [12358], [12365], [12367], [12375], [12377], [12388], [12396], [12405],
      [12416], [12422], [12427]]"

definition allowed_short :: "ustring list" where
  "allowed_short =
     [[12391, 12377], [12414, 12377], [12371, 12398], [12381, 12398], [12354, 12398],
      [12393, 12398], [12371, 12428], [12381, 12428], [12354, 12428], [12393, 12428],
      [12363, 12425], [12414, 12391], [12424, 12426], [12394, 12393], [12391, 12418],
      [12418, 12358], [12414, 12384], [12418, 12398], [12371, 12392], [12392, 12365],
      [12383, 12417], [12372, 12392], [12369, 12393]]"

definition ending_chars :: "uchar list" where
  "ending_chars =
     [12387, 12388, 12367, 12368, 12377, 12416, 12406, 12396, 12383, 12427, 12428]"

text \<open>
  One round of the loop of \<open>filter_japanese_tokens\<close>: \<open>True\<close> when the word is appended,
  \<open>False\<close> when a \<open>continue\<close> or the last test drops it. The float \<open>len(word) * 0.7\<close> is the
  rounded product of the length and the float nearest to 7/10.
\<close>

definition keep_token :: "ustring \<Rightarrow> bool" where
  "keep_token w =
     (if w = [] \<or> py_strip w = [] then False
      else if match_to_end (one_or_more is_symbol) w then False
      else if of_nat (length (filter is_symbol w))
                \<ge> py_float_mul (nearest_float (7 / 10)) (int (length w)) then False
      else if length w = 1 \<and> list_ex (\<lambda>c. w = [c]) particle_chars then False
      else if length w = 1 \<and> match_to_end (\<lambda>u. length u = 1 \<and> list_all is_hiragana u) w
                \<and> w \<notin> set important_single then False
      else if length w = 1 \<and> match_to_end (\<lambda>u. length u = 1 \<and> list_all is_katakana u) w then False
      else if length w \<le> 2 \<and> match_to_end (one_or_more is_hiragana) w
                \<and> w \<notin> set allowed_short then False
      else if match_to_end (\<lambda>u. (length u = 1 \<or> length u = 2) \<and> list_all (\<lambda>c. c \<in> set ending_chars) u) w
           then False
      else list_ex is_japanese w \<or> \<not> match_to_end (one_or_more is_japanese) w)"

definition filter_japanese_tokens :: "ustring list \<Rightarrow> ustring list" where
  "filter_japanese_tokens words =
     foldl (\<lambda>filtered_words w. if keep_token w then filtered_words @ [w] else filtered_words) [] words"

section \<open>Verified properties\<close>

subsection \<open>Star buckets\<close>

text \<open>
  Claim C6. The star bucket of a rank \<open>r\<close> is 5 for \<open>r \<le> 1500\<close>, 4 for
  \<open>1501 \<le> r \<le> 5000\<close>, 3 for \<open>5001 \<le> r \<le> 15000\<close>, 2 for \<open>15001 \<le> r \<le> 30000\<close>,
  1 for \<open>30001 \<le> r \<le> 60000\<close>, and 0 for \<open>r > 60000\<close> or a missing rank; both
  functions of the source agree. In particular 1500 gives 5, 1501 gives 4, 60000 gives 1,
  60001 gives 0 and \<open>None\<close> gives 0.
\<close>

theorem star_bucket_boundaries:
  "get_star_rating_from_rank (Some r) =
     (if r \<le> 1500 then 5
      else if 1501 \<le> r \<and> r \<le> 5000 then 4
      else if 5001 \<le> r \<and> r \<le> 15000 then 3
      else if 15001 \<le> r \<and> r \<le> 30000 then 2
      else if 30001 \<le> r \<and> r \<le> 60000 then 1
      else 0)
   \<and> (60000 < r \<longrightarrow> get_star_rating_from_rank (Some r) = 0)
   \<and> get_star_rating_from_rank None = 0
   \<and> star_from_rank_filter rk = get_star_rating_from_rank rk
   \<and> get_star_rating_from_rank (Some 1500) = 5
   \<and> get_star_rating_from_rank (Some 1501) = 4
   \<and> get_star_rating_from_rank (Some 60000) = 1
   \<and> get_star_rating_from_rank (Some 60001) = 0"
  by (simp add: get_star_rating_from_rank_def star_from_rank_filter_def)

theorem star_bucket_boundaries_witness:
  "get_star_rating_from_rank (Some 15001) = 2
   \<and> star_from_rank_filter (Some 15001) = 2
   \<and> ((60000::int) < 60001 \<and> get_star_rating_from_rank (Some 60001) = 0)"
  using star_bucket_boundaries [of 15001 "Some 15001"] star_bucket_boundaries [of 60001 None]
  by simp

subsection \<open>Chunk splitter\<close>

lemma norm_index_nonneg: "0 \<le> i \<Longrightarrow> i \<le> int n \<Longrightarrow> norm_index n i = nat i"
  by (auto simp: norm_index_def)

lemma rfind_range:
  assumes "rfind s c k = p" "p \<noteq> - 1"
  shows "0 \<le> p \<and> p < int (length s)"
proof -
  obtain q qs where q: "filter (\<lambda>p. s ! p = c) (rev [norm_index (length s) k ..< length s]) = q # qs"
    and p: "p = int q"
    using assms by (auto simp: rfind_def split: list.splits)
  have "q \<in> set (filter (\<lambda>p. s ! p = c) (rev [norm_index (length s) k ..< length s]))"
    unfolding q by simp
  then have "q < length s" by auto
  with p show ?thesis by simp
qed

lemma first_rfind_range:
  "first_rfind s k ps = Some p \<Longrightarrow> 0 \<le> p \<and> p < int (length s)"
proof (induction ps)
  case Nil
  then show ?case by simp
next
  case (Cons a ps)
  then show ?case
    using rfind_range [of s a k "rfind s a k"]
    by (auto simp: Let_def split: if_splits)
qed

lemma find_break_range:
  "find_break s k = Some p \<Longrightarrow> 0 \<le> p \<and> p < int (length s)"
  unfolding find_break_def
  by (auto split: option.splits dest: first_rfind_range)

lemma split_loop_positive:
  assumes cs: "0 < chunk_size"
  shows "0 \<le> start \<Longrightarrow> start < int (length text) \<Longrightarrow>
     \<exists>rest. split_loop text chunk_size start chunks = Some (chunks @ rest)
        \<and> concat rest = drop (nat start) text
        \<and> (\<forall>c \<in> set rest. c \<noteq> [] \<and> int (length c) \<le> chunk_size)"
proof (induction "nat (int (length text) - start)" arbitrary: start chunks rule: less_induct)
  case less
  let ?n = "int (length text)"
  let ?end = "start + chunk_size"
  show ?case
  proof (cases "?end \<ge> ?n")
    case True
    have "split_loop text chunk_size start chunks = Some (chunks @ [py_slice_from text start])"
      using less.prems True by (subst split_loop.simps) (simp add: Let_def)
    moreover have "py_slice_from text start = drop (nat start) text"
      using less.prems by (simp add: py_slice_from_def norm_index_nonneg)
    ultimately have run: "split_loop text chunk_size start chunks = Some (chunks @ [drop (nat start) text])"
      by simp
    have "int (length (drop (nat start) text)) = ?n - start"
      using less.prems by simp
    then have "0 < length (drop (nat start) text)" and "int (length (drop (nat start) text)) \<le> chunk_size"
      using less.prems True by linarith+
    then have "concat [drop (nat start) text] = drop (nat start) text
        \<and> (\<forall>c \<in> set [drop (nat start) text]. c \<noteq> [] \<and> int (length c) \<le> chunk_size)"
      by simp
    with run show ?thesis
      by blast
  next
    case False
    define chunk_text where "chunk_text = py_slice text start ?end"
    define end' where "end' = (case find_break chunk_text (max start (?end - 200) - start) of
                          Some pos \<Rightarrow> start + pos + 1 | None \<Rightarrow> ?end)"
    have len_ct: "int (length chunk_text) = chunk_size"
      using less.prems False cs
      by (simp add: chunk_text_def py_slice_def Let_def norm_index_nonneg)
    have bounds: "start < end' \<and> end' \<le> ?end"
      using find_break_range [of chunk_text "max start (?end - 200) - start"] len_ct cs
      by (auto simp: end'_def split: option.splits)
    have step: "split_loop text chunk_size start chunks =
        split_loop text chunk_size end' (chunks @ [py_slice text start end'])"
      using less.prems False
      by (subst split_loop.simps) (simp add: Let_def chunk_text_def end'_def)
    have sl: "py_slice text start end' = take (nat (end' - start)) (drop (nat start) text)"
      using less.prems False bounds
      by (simp add: py_slice_def Let_def norm_index_nonneg nat_diff_distrib)
    have dec: "nat (?n - end') < nat (?n - start)"
      using bounds False by linarith
    have e0: "0 \<le> end'" and e1: "end' < ?n"
      using bounds less.prems False by linarith+
    have "\<exists>rest. split_loop text chunk_size end' (chunks @ [py_slice text start end']) =
         Some ((chunks @ [py_slice text start end']) @ rest)
        \<and> concat rest = drop (nat end') text
        \<and> (\<forall>c \<in> set rest. c \<noteq> [] \<and> int (length c) \<le> chunk_size)"
      by (rule less.hyps [OF dec e0 e1])
    then obtain rest where rest:
      "split_loop text chunk_size end' (chunks @ [py_slice text start end']) =
         Some ((chunks @ [py_slice text start end']) @ rest)"
      "concat rest = drop (nat end') text"
      "\<forall>c \<in> set rest. c \<noteq> [] \<and> int (length c) \<le> chunk_size"
      by (elim exE conjE)
    define k where "k = nat (end' - start)"
    define d where "d = drop (nat start) text"
    have k_pos: "0 < k" and k_le: "int k \<le> chunk_size"
      using bounds by (simp_all add: k_def)
    have len_d: "int (length d) = ?n - start"
      using less.prems by (simp add: d_def)
    have k_lt: "k < length d"
      using len_d bounds False unfolding k_def by linarith
    have sl': "py_slice text start end' = take k d"
      using sl by (simp add: k_def d_def)
    have "k + nat start = nat end'"
      using bounds less.prems unfolding k_def by linarith
    then have "drop (nat end') text = drop k d"
      by (simp add: d_def)
    then have "concat rest = drop k d"
      using rest(2) by simp
    then have "concat (py_slice text start end' # rest) = take k d @ drop k d"
      using sl' by simp
    also have "\<dots> = d"
      by (rule append_take_drop_id)
    finally have cat: "concat (py_slice text start end' # rest) = drop (nat start) text"
      unfolding d_def .
    have "length (take k d) = k"
      using k_lt by simp
    then have ne: "py_slice text start end' \<noteq> []"
      and le: "int (length (py_slice text start end')) \<le> chunk_size"
      using sl' k_pos k_le by auto
    have "split_loop text chunk_size start chunks =
        Some (chunks @ (py_slice text start end' # rest))"
      using step rest(1) by simp
    moreover have "\<forall>c \<in> set (py_slice text start end' # rest).
        c \<noteq> [] \<and> int (length c) \<le> chunk_size"
      using rest(3) ne le by simp
    ultimately show ?thesis
      using cat by (intro exI [of _ "py_slice text start end' # rest"] conjI)
  qed
qed


lemma py_slice_backwards:
  assumes "chunk_size \<le> 0" "start < int (length text)"
  shows "start + int (length (py_slice text start (start + chunk_size))) < int (length text)"
  using assms by (auto simp: py_slice_def norm_index_def Let_def min_def max_def)

lemma split_loop_diverges_aux:
  assumes "split_loop tx0 cs0 st0 ch0 = Some r0"
  shows "\<not> (cs0 \<le> 0 \<and> st0 < int (length tx0))"
proof (rule split_loop.raw_induct
    [where P = "\<lambda>tx cs st ch r. \<not> (cs \<le> 0 \<and> st < int (length tx))", OF _ assms], goal_cases)
  case (1 loop tx chunk_size start chunks r)
  show ?case
  proof
    assume a: "chunk_size \<le> 0 \<and> start < int (length tx)"
    let ?n = "int (length tx)"
    let ?end = "start + chunk_size"
    define chunk_text where "chunk_text = py_slice tx start ?end"
    define end' where "end' = (case find_break chunk_text (max start (?end - 200) - start) of
                          Some pos \<Rightarrow> start + pos + 1 | None \<Rightarrow> ?end)"
    have notlast: "\<not> ?n \<le> ?end" using a by linarith
    have "loop tx chunk_size end' (chunks @ [py_slice tx start end']) = Some r"
      using "1"(2) a notlast by (simp add: Let_def chunk_text_def end'_def)
    then have "\<not> (chunk_size \<le> 0 \<and> end' < ?n)"
      by (rule "1"(1))
    moreover have "end' < ?n"
      using find_break_range [of chunk_text "max start (?end - 200) - start"]
        py_slice_backwards [of chunk_size start tx] a
      by (auto simp: end'_def chunk_text_def split: option.splits)
    ultimately show False using a by simp
  qed
qed

lemma split_loop_diverges:
  "chunk_size \<le> 0 \<Longrightarrow> start < int (length text) \<Longrightarrow> split_loop text chunk_size start chunks = None"
  using split_loop_diverges_aux [of "text" chunk_size start chunks] by (cases "split_loop text chunk_size start chunks") auto

lemma split_text_into_chunks_positive:
  assumes "0 < chunk_size"
  shows "\<exists>chunks. split_text_into_chunks text chunk_size = Some chunks
        \<and> concat chunks = text
        \<and> (\<forall>c \<in> set chunks. int (length c) \<le> chunk_size)
        \<and> (text \<noteq> [] \<longrightarrow> chunks \<noteq> [] \<and> [] \<notin> set chunks)"
proof (cases "int (length text) \<le> chunk_size")
  case True
  then show ?thesis
    by (simp add: split_text_into_chunks_def)
next
  case False
  then have "0 < int (length text)"
    using assms by linarith
  then obtain rest where rest:
    "split_loop text chunk_size 0 [] = Some ([] @ rest)"
    "concat rest = drop (nat 0) text"
    "\<forall>c \<in> set rest. c \<noteq> [] \<and> int (length c) \<le> chunk_size"
    using split_loop_positive [OF assms, of 0 "text" "[]"] by auto
  have "rest \<noteq> []"
    using rest(2) \<open>0 < int (length text)\<close> by auto
  then show ?thesis
    using rest False by (auto simp: split_text_into_chunks_def)
qed

lemma split_loop_step:
  assumes "start < int (length t)" "\<not> int (length t) \<le> start + chunk_size"
    and "find_break (py_slice t start (start + chunk_size))
           (max start (start + chunk_size - 200) - start) = Some pos"
  shows "split_loop t chunk_size start chunks
           = split_loop t chunk_size (start + pos + 1) (chunks @ [py_slice t start (start + pos + 1)])"
  using assms by (subst split_loop.simps) (simp add: Let_def)

lemma split_loop_last:
  assumes "start < int (length t)" "int (length t) \<le> start + chunk_size"
  shows "split_loop t chunk_size start chunks = Some (chunks @ [py_slice_from t start])"
  using assms by (subst split_loop.simps) (simp add: Let_def)

text \<open>A text of seven characters, split with a chunk size of three.\<close>

lemma split_example:
  "split_text_into_chunks [12354, 12290, 12356, 12358, 32, 12360, 12362] 3
     = Some [[12354, 12290], [12356, 12358, 32], [12360, 12362]]"
proof -
  let ?t = "[12354, 12290, 12356, 12358, 32, 12360, 12362 :: nat]"
  have b1: "find_break (py_slice ?t 0 (0 + 3)) (max 0 (0 + 3 - 200) - 0) = Some 1"
    by (simp add: py_slice_def norm_index_def Let_def find_break_def rfind_def sentence_endings_def)
  have b2: "find_break (py_slice ?t 2 (2 + 3)) (max 2 (2 + 3 - 200) - 2) = Some 2"
    by (simp add: py_slice_def norm_index_def Let_def find_break_def rfind_def sentence_endings_def
        other_punctuation_def whitespace_breaks_def)
  have 1: "split_loop ?t 3 0 [] = split_loop ?t 3 2 [[12354, 12290]]"
    using split_loop_step [of 0 ?t 3 1 "[]", OF _ _ b1]
    by (simp add: py_slice_def norm_index_def Let_def)
  have 2: "split_loop ?t 3 2 [[12354, 12290]] = split_loop ?t 3 5 [[12354, 12290], [12356, 12358, 32]]"
    using split_loop_step [of 2 ?t 3 2 "[[12354, 12290]]", OF _ _ b2]
    by (simp add: py_slice_def norm_index_def Let_def)
  have 3: "split_loop ?t 3 5 [[12354, 12290], [12356, 12358, 32]]
             = Some [[12354, 12290], [12356, 12358, 32], [12360, 12362]]"
    using split_loop_last [of 5 ?t 3 "[[12354, 12290], [12356, 12358, 32]]"]
    by (simp add: py_slice_from_def norm_index_def)
  show ?thesis
    by (simp add: split_text_into_chunks_def 1 2 3)
qed

text \<open>
  Claim C3. For every input text and every positive \<open>max_chunk_size\<close> the splitter returns,
  the concatenation of the returned chunks in order is the input text, and no returned chunk
  is longer than \<open>max_chunk_size\<close>.
\<close>

theorem chunk_round_trip:
  "0 < chunk_size \<Longrightarrow>
     \<exists>chunks. split_text_into_chunks text chunk_size = Some chunks
        \<and> concat chunks = text
        \<and> (\<forall>c \<in> set chunks. int (length c) \<le> chunk_size)"
  using split_text_into_chunks_positive [of chunk_size "text"] by blast

theorem chunk_round_trip_witness:
  "(0::int) < 3
   \<and> split_text_into_chunks [12354, 12290, 12356, 12358, 32, 12360, 12362] 3
        = Some [[12354, 12290], [12356, 12358, 32], [12360, 12362]]
   \<and> (\<exists>chunks. split_text_into_chunks [12354, 12290, 12356, 12358, 32, 12360, 12362] 3 = Some chunks
        \<and> concat chunks = [12354, 12290, 12356, 12358, 32, 12360, 12362]
        \<and> (\<forall>c \<in> set chunks. int (length c) \<le> 3))"
  using chunk_round_trip [of 3 "[12354, 12290, 12356, 12358, 32, 12360, 12362]"] split_example
  by simp

text \<open>
  Claim C7, as the code has it. For every positive \<open>max_chunk_size\<close> and non-empty text the
  splitter returns at least one chunk and no empty chunk; for a \<open>max_chunk_size\<close> of zero or
  less and a non-empty text it never returns. For the empty text it returns the single
  empty chunk when \<open>max_chunk_size\<close> is zero or more, and no chunk only when
  \<open>max_chunk_size\<close> is negative.
\<close>

theorem chunks_never_empty:
  "(text \<noteq> [] \<longrightarrow>
      (0 < chunk_size \<longrightarrow>
         (\<exists>chunks. split_text_into_chunks text chunk_size = Some chunks
            \<and> chunks \<noteq> [] \<and> [] \<notin> set chunks))
      \<and> (chunk_size \<le> 0 \<longrightarrow> split_text_into_chunks text chunk_size = None))
   \<and> split_text_into_chunks [] chunk_size = Some (if 0 \<le> chunk_size then [[]] else [])"
proof (intro conjI impI)
  assume "text \<noteq> []" "0 < chunk_size"
  then show "\<exists>chunks. split_text_into_chunks text chunk_size = Some chunks
            \<and> chunks \<noteq> [] \<and> [] \<notin> set chunks"
    using split_text_into_chunks_positive [of chunk_size "text"] by blast
next
  assume "text \<noteq> []" "chunk_size \<le> 0"
  then have pos: "0 < int (length text)"
    by simp
  then have gt: "\<not> int (length text) \<le> chunk_size"
    using \<open>chunk_size \<le> 0\<close> by linarith
  show "split_text_into_chunks text chunk_size = None"
    using \<open>chunk_size \<le> 0\<close> pos gt split_loop_diverges [of chunk_size 0 "text" "[]"]
    by (simp add: split_text_into_chunks_def)
next
  show "split_text_into_chunks [] chunk_size = Some (if 0 \<le> chunk_size then [[]] else [])"
    by (subst split_text_into_chunks_def, subst split_loop.simps) simp
qed

theorem chunks_never_empty_witness:
  "[12354, 12290, 12356, 12358] \<noteq> [] \<and> (0::int) < 3 \<and> (0::int) \<le> 0
   \<and> (\<exists>chunks. split_text_into_chunks [12354, 12290, 12356, 12358] 3 = Some chunks
            \<and> chunks \<noteq> [] \<and> [] \<notin> set chunks)
   \<and> split_text_into_chunks [12354, 12290, 12356, 12358] 0 = None
   \<and> split_text_into_chunks [] 0 = Some [[]]"
  using chunks_never_empty [of "[12354, 12290, 12356, 12358]" 3]
    chunks_never_empty [of "[12354, 12290, 12356, 12358]" 0]
  by simp

theorem empty_text_one_empty_chunk_counterexample:
  "split_text_into_chunks [] 300 = Some [[]]"
  by (simp add: split_text_into_chunks_def)

subsection \<open>Frequency resolver\<close>

lemma exact_match_found_iff:
  "exact_match_found w hs \<longleftrightarrow> (\<exists>h \<in> set hs. hw_term h = Some w \<or> reading h = Some w)"
  by (induction hs) auto

lemma spec_lowest_step:
  assumes "spec_lowest S best"
    and "case best of None \<Rightarrow> True | Some (br, bs) \<Rightarrow> r < br"
  shows "spec_lowest (S \<union> {(r, s)}) (Some (r, s))"
  using assms by (cases best) (auto simp: spec_lowest_def)

lemma spec_lowest_keep:
  assumes "spec_lowest S best"
    and "\<not> (case best of None \<Rightarrow> True | Some (br, bs) \<Rightarrow> r < br)"
  shows "spec_lowest (S \<union> {(r, s)}) best"
  using assms by (cases best) (auto simp: spec_lowest_def)

lemma scan_frequencies_lowest:
  "spec_lowest S best \<Longrightarrow>
     spec_lowest (S \<union> {(r, s). \<exists>f \<in> set fs. frequency f = Some r \<and> s = freq_source f})
       (scan_frequencies best fs)"
proof (induction fs arbitrary: S best)
  case Nil
  then show ?case by simp
next
  case (Cons f fs)
  let ?F = "\<lambda>xs. {(r, s). \<exists>f \<in> set xs. frequency f = Some r \<and> s = freq_source f}"
  show ?case
  proof (cases "frequency f")
    case None
    then have "?F (f # fs) = ?F fs" by auto
    then show ?thesis
      using Cons.IH [OF Cons.prems] None by simp
  next
    case (Some r)
    have split: "S \<union> ?F (f # fs) = (S \<union> {(r, freq_source f)}) \<union> ?F fs"
      using Some by auto
    show ?thesis
    proof (cases "case best of None \<Rightarrow> True | Some (br, bs) \<Rightarrow> r < br")
      case True
      have "spec_lowest (S \<union> {(r, freq_source f)}) (Some (r, freq_source f))"
        by (rule spec_lowest_step [OF Cons.prems True])
      from Cons.IH [OF this] show ?thesis
        using Some True unfolding split by (simp add: freq_source_def)
    next
      case False
      have "spec_lowest (S \<union> {(r, freq_source f)}) best"
        by (rule spec_lowest_keep [OF Cons.prems False])
      from Cons.IH [OF this] show ?thesis
        using Some False unfolding split by (simp add: freq_source_def)
    qed
  qed
qed

lemma spec_qualifying_Cons:
  "spec_qualifying w (e # es) =
     (if spec_exact_entry w e
      then {(r, s). \<exists>f \<in> set (frequencies e). frequency f = Some r \<and> s = freq_source f}
      else {}) \<union> spec_qualifying w es"
  by (auto simp: spec_qualifying_def)

lemma scan_entries_lowest:
  "spec_lowest S best \<Longrightarrow> spec_lowest (S \<union> spec_qualifying w es) (scan_entries w best es)"
proof (induction es arbitrary: S best)
  case Nil
  then show ?case by (simp add: spec_qualifying_def)
next
  case (Cons e es)
  show ?case
  proof (cases "exact_match_found w (headwords e)")
    case True
    then have ex: "spec_exact_entry w e" and ne: "headwords e \<noteq> []"
      by (auto simp: exact_match_found_iff spec_exact_entry_def)
    have "spec_lowest (S \<union> {(r, s). \<exists>f \<in> set (frequencies e). frequency f = Some r \<and> s = freq_source f})
            (scan_frequencies best (frequencies e))"
      by (rule scan_frequencies_lowest [OF Cons.prems])
    from Cons.IH [OF this] have "spec_lowest (S \<union> spec_qualifying w (e # es))
        (scan_entries w (scan_frequencies best (frequencies e)) es)"
      using ex by (simp add: spec_qualifying_Cons Un_assoc)
    moreover have "frequencies e = [] \<Longrightarrow> scan_frequencies best (frequencies e) = best"
      by simp
    ultimately show ?thesis
      using True ne by (cases "frequencies e = []") auto
  next
    case False
    then have "\<not> spec_exact_entry w e"
      by (simp add: exact_match_found_iff spec_exact_entry_def)
    then have "spec_qualifying w (e # es) = spec_qualifying w es"
      by (simp add: spec_qualifying_Cons)
    then show ?thesis
      using Cons.IH [OF Cons.prems] False by simp
  qed
qed

lemma scan_entries_filter:
  "scan_entries w best (filter (spec_exact_entry w) es) = scan_entries w best es"
proof (induction es arbitrary: best)
  case Nil
  then show ?case by simp
next
  case (Cons e es)
  have "spec_exact_entry w e \<longleftrightarrow> exact_match_found w (headwords e)"
    by (simp add: exact_match_found_iff spec_exact_entry_def)
  moreover have "exact_match_found w (headwords e) \<Longrightarrow> headwords e \<noteq> []"
    by auto
  ultimately show ?case
    using Cons.IH by auto
qed

text \<open>
  Claim C4. When the word is not cached and the service answers with status 200 and a list
  of dictionary entries, the resolver looks only at the entries that have a headword whose
  term or reading is exactly the word (the entries without one can be removed from the answer
  without changing the result); it answers \<open>found\<close> exactly when one of them carries a
  frequency, with the lowest rank among them and a source that carries that rank.
\<close>

theorem frequency_exact_match_lowest_rank:
  assumes "cache_lookup cache w = None"
    and "service w = TermHttpResponse 200 (Some entries)"
  shows "spec_lowest (spec_qualifying w entries)
           (case fst (get_yomitan_frequency_data service cache w) of
              NotFound \<Rightarrow> None | Found r s \<Rightarrow> Some (r, s))
         \<and> fst (get_yomitan_frequency_data service cache w) =
             fst (get_yomitan_frequency_data
                    (\<lambda>u. TermHttpResponse 200 (Some (filter (spec_exact_entry w) entries))) cache w)"
proof
  have "spec_lowest ({} \<union> spec_qualifying w entries) (scan_entries w None entries)"
    by (rule scan_entries_lowest) (simp add: spec_lowest_def)
  then show "spec_lowest (spec_qualifying w entries)
           (case fst (get_yomitan_frequency_data service cache w) of
              NotFound \<Rightarrow> None | Found r s \<Rightarrow> Some (r, s))"
    using assms by (auto simp: get_yomitan_frequency_data_def split: option.splits)
next
  show "fst (get_yomitan_frequency_data service cache w) =
             fst (get_yomitan_frequency_data
                    (\<lambda>u. TermHttpResponse 200 (Some (filter (spec_exact_entry w) entries))) cache w)"
    using assms
    by (simp add: get_yomitan_frequency_data_def scan_entries_filter split: option.splits)
qed

theorem frequency_exact_match_lowest_rank_witness:
  "cache_lookup None [29483] = None
   \<and> fst (get_yomitan_frequency_data
        (\<lambda>u. TermHttpResponse 200 (Some
           [\<lparr> headwords = [\<lparr> hw_term = Some [29483], reading = Some [12397, 12371] \<rparr>],
               frequencies = [\<lparr> frequency = Some 500, dictionary = Some [88] \<rparr>] \<rparr>,
            \<lparr> headwords = [\<lparr> hw_term = Some [29483, 31185], reading = Some [12397, 12371, 12363] \<rparr>],
               frequencies = [\<lparr> frequency = Some 10, dictionary = Some [89] \<rparr>] \<rparr>]))
        None [29483]) = Found 500 [88]"
  using frequency_exact_match_lowest_rank
    [of None "[29483]" "\<lambda>u. TermHttpResponse 200 (Some
           [\<lparr> headwords = [\<lparr> hw_term = Some [29483], reading = Some [12397, 12371] \<rparr>],
               frequencies = [\<lparr> frequency = Some 500, dictionary = Some [88] \<rparr>] \<rparr>,
            \<lparr> headwords = [\<lparr> hw_term = Some [29483, 31185], reading = Some [12397, 12371, 12363] \<rparr>],
               frequencies = [\<lparr> frequency = Some 10, dictionary = Some [89] \<rparr>] \<rparr>])"]
  by (simp add: cache_lookup_def get_yomitan_frequency_data_def)

subsection \<open>Deduplication\<close>

lemma sum_word_dict_put:
  "sum_list (map count (word_dict_put acc entry)) = sum_list (map count acc) + count entry"
  by (induction acc) (simp_all add: merge_entry_def)

lemma sum_foldl_word_dict_put:
  "sum_list (map count (foldl word_dict_put acc xs)) =
     sum_list (map count acc) + sum_list (map count xs)"
  by (induction xs arbitrary: acc) (simp_all add: sum_word_dict_put)

text \<open>
  Claim C8. For every list of word entries, the sum of the counts of the entries before
  deduplication is the sum of the counts of the merged entries after it. The function is
  applied to each category list on its own, so this holds for each of them.
\<close>

theorem dedup_conserves_count:
  "sum_list (map count (deduplicate_word_list word_list)) = sum_list (map count word_list)"
  by (simp add: deduplicate_word_list_def sum_foldl_word_dict_put)

theorem dedup_conserves_count_witness:
  "sum_list (map count (deduplicate_word_list
      [\<lparr> word = [29483], count = 3, has_frequency = True, rank = Some 500, source = Some [88],
          in_vocabulary = True, is_ignored = False, original_word = Some [29483],
          original_words = None \<rparr>,
       \<lparr> word = [29356], count = 4, has_frequency = False, rank = None, source = None,
          in_vocabulary = True, is_ignored = False, original_word = Some [29356],
          original_words = None \<rparr>,
       \<lparr> word = [29483], count = 5, has_frequency = True, rank = Some 500, source = Some [88],
          in_vocabulary = True, is_ignored = False, original_word = Some [12397, 12371],
          original_words = None \<rparr>])) = 12
   \<and> map word (deduplicate_word_list
      [\<lparr> word = [29483], count = 3, has_frequency = True, rank = Some 500, source = Some [88],
          in_vocabulary = True, is_ignored = False, original_word = Some [29483],
          original_words = None \<rparr>,
       \<lparr> word = [29356], count = 4, has_frequency = False, rank = None, source = None,
          in_vocabulary = True, is_ignored = False, original_word = Some [29356],
          original_words = None \<rparr>,
       \<lparr> word = [29483], count = 5, has_frequency = True, rank = Some 500, source = Some [88],
          in_vocabulary = True, is_ignored = False, original_word = Some [12397, 12371],
          original_words = None \<rparr>]) = [[29483], [29356]]"
  using dedup_conserves_count [of
      "[\<lparr> word = [29483], count = 3, has_frequency = True, rank = Some 500, source = Some [88],
          in_vocabulary = True, is_ignored = False, original_word = Some [29483],
          original_words = None \<rparr>,
       \<lparr> word = [29356], count = 4, has_frequency = False, rank = None, source = None,
          in_vocabulary = True, is_ignored = False, original_word = Some [29356],
          original_words = None \<rparr>,
       \<lparr> word = [29483], count = 5, has_frequency = True, rank = Some 500, source = Some [88],
          in_vocabulary = True, is_ignored = False, original_word = Some [12397, 12371],
          original_words = None \<rparr>]"]
  by (simp add: deduplicate_word_list_def merge_entry_def)

lemma word_dict_put_fresh:
  "word entry \<notin> set (map word acc) \<Longrightarrow> word_dict_put acc entry = acc @ [entry]"
  by (induction acc) auto

lemma dedup_distinct_foldl:
  "distinct (map word (acc @ xs)) \<Longrightarrow> foldl word_dict_put acc xs = acc @ xs"
proof (induction xs arbitrary: acc)
  case Nil
  then show ?case by simp
next
  case (Cons x xs)
  have "word x \<notin> set (map word acc)"
    using Cons.prems by auto
  then have "word_dict_put acc x = acc @ [x]"
    by (rule word_dict_put_fresh)
  moreover have "distinct (map word ((acc @ [x]) @ xs))"
    using Cons.prems by simp
  ultimately show ?case
    using Cons.IH [of "acc @ [x]"] by simp
qed

lemma dedup_distinct:
  "distinct (map word xs) \<Longrightarrow> deduplicate_word_list xs = xs"
  using dedup_distinct_foldl [of "[]" xs] by (simp add: deduplicate_word_list_def)

subsection \<open>Classification\<close>

lemma map_fst_counter_add:
  "map fst (counter_add al w) = (if w \<in> set (map fst al) then map fst al else map fst al @ [w])"
  by (induction al w rule: counter_add.induct) auto

lemma counter_keys_foldl:
  "distinct (map fst acc) \<Longrightarrow>
     distinct (map fst (foldl counter_add acc ws))
     \<and> set (map fst (foldl counter_add acc ws)) = set (map fst acc) \<union> set ws"
proof (induction ws arbitrary: acc)
  case Nil
  then show ?case by simp
next
  case (Cons w ws)
  have d: "distinct (map fst (counter_add acc w))"
    using Cons.prems by (simp add: map_fst_counter_add)
  have s: "set (map fst (counter_add acc w)) = insert w (set (map fst acc))"
    by (auto simp: map_fst_counter_add)
  show ?case
    using Cons.IH [OF d] s by auto
qed

lemma Counter_keys:
  "distinct (map fst (Counter ws))" "set (map fst (Counter ws)) = set ws"
  using counter_keys_foldl [of "[]" ws] by (simp_all add: Counter_def)

text \<open>The words of the four lists after the loop, in terms of the keys of the counter.\<close>

lemma classify_words_lists:
  assumes "foldl (classify_word service V I) (c, a, k, u, i) wcs = (c', a', k', u', i')"
  shows "map word a' = map word a @ map fst wcs
       \<and> map word k' = map word k @ filter (\<lambda>w. w \<notin> I \<and> w \<in> V) (map fst wcs)
       \<and> map word u' = map word u @ filter (\<lambda>w. w \<notin> I \<and> w \<notin> V) (map fst wcs)
       \<and> map word i' = map word i @ filter (\<lambda>w. w \<in> I) (map fst wcs)"
  using assms
proof (induction wcs arbitrary: c a k u i)
  case Nil
  then show ?case by simp
next
  case (Cons wc wcs)
  obtain w n where wc: "wc = (w, n)" by (cases wc)
  obtain fd c1 where g: "get_yomitan_frequency_data service c w = (fd, c1)"
    by (cases "get_yomitan_frequency_data service c w")
  show ?case
  proof (cases "w \<in> I")
    case True
    then obtain e where st: "classify_word service V I (c, a, k, u, i) wc = (c1, a @ [e], k, u, i @ [e])"
      and e: "word e = w"
      by (simp add: classify_word_def wc g Let_def)
    from Cons.prems have "foldl (classify_word service V I) (c1, a @ [e], k, u, i @ [e]) wcs = (c', a', k', u', i')"
      by (simp add: st)
    from Cons.IH [OF this] show ?thesis
      using True e by (simp add: wc)
  next
    case notI: False
    show ?thesis
    proof (cases "w \<in> V")
      case True
      then obtain e where st: "classify_word service V I (c, a, k, u, i) wc = (c1, a @ [e], k @ [e], u, i)"
        and e: "word e = w"
        using notI by (simp add: classify_word_def wc g Let_def)
      from Cons.prems have "foldl (classify_word service V I) (c1, a @ [e], k @ [e], u, i) wcs = (c', a', k', u', i')"
        by (simp add: st)
      from Cons.IH [OF this] show ?thesis
        using True notI e by (simp add: wc)
    next
      case False
      then obtain e where st: "classify_word service V I (c, a, k, u, i) wc = (c1, a @ [e], k, u @ [e], i)"
        and e: "word e = w"
        using notI by (simp add: classify_word_def wc g Let_def)
      from Cons.prems have "foldl (classify_word service V I) (c1, a @ [e], k, u @ [e], i) wcs = (c', a', k', u', i')"
        by (simp add: st)
      from Cons.IH [OF this] show ?thesis
        using False notI e by (simp add: wc)
    qed
  qed
qed

lemma set_sort_by_count: "set (sort_by_count xs) = set xs"
  by (simp add: sort_by_count_def)

lemma length_sort_by_count: "length (sort_by_count xs) = length xs"
  by (simp add: sort_by_count_def)

text \<open>The three category lists of the result, as sets of words, and their lengths.\<close>

lemma analysis_categories:
  fixes service cache V I ws
  defines "r \<equiv> fst (analyze_text_vocabulary service cache V I ws)"
  shows "word ` set (known_words r) = {w \<in> set ws. w \<notin> I \<and> w \<in> V}"
    and "word ` set (unknown_words r) = {w \<in> set ws. w \<notin> I \<and> w \<notin> V}"
    and "word ` set (ignored_words r) = {w \<in> set ws. w \<in> I}"
    and "length (known_words r) + length (unknown_words r) + length (ignored_words r) = unique_words r"
    and "unique_words r = card (set ws)"
proof -
  obtain c' a' k' u' i' where f:
    "foldl (classify_word service V I) (cache, [], [], [], []) (Counter ws) = (c', a', k', u', i')"
    by (metis prod_cases5)
  note L = classify_words_lists [OF f]
  let ?keys = "map fst (Counter ws)"
  have dk: "distinct (map word k')" and du: "distinct (map word u')"
    using L Counter_keys(1) [of ws] by (simp_all add: distinct_map_filter)
  have r: "known_words r = sort_by_count k'" "unknown_words r = sort_by_count u'"
    "ignored_words r = sort_by_count i'" "unique_words r = length (Counter ws)"
    unfolding r_def analyze_text_vocabulary_def
    by (simp_all add: f Let_def dedup_distinct [OF dk] dedup_distinct [OF du])
  have sk: "word ` set k' = set (map word k')" and su: "word ` set u' = set (map word u')"
    and si: "word ` set i' = set (map word i')"
    by simp_all
  show "word ` set (known_words r) = {w \<in> set ws. w \<notin> I \<and> w \<in> V}"
    unfolding r(1) set_sort_by_count sk using L Counter_keys(2) [of ws] by auto
  show "word ` set (unknown_words r) = {w \<in> set ws. w \<notin> I \<and> w \<notin> V}"
    unfolding r(2) set_sort_by_count su using L Counter_keys(2) [of ws] by auto
  show "word ` set (ignored_words r) = {w \<in> set ws. w \<in> I}"
    unfolding r(3) set_sort_by_count si using L Counter_keys(2) [of ws] by auto
  have "length k' + length u' + length i' = length ?keys"
  proof -
    have lens: "length k' = length (filter (\<lambda>w. w \<notin> I \<and> w \<in> V) ?keys)"
      "length u' = length (filter (\<lambda>w. w \<notin> I \<and> w \<notin> V) ?keys)"
      "length i' = length (filter (\<lambda>w. w \<in> I) ?keys)"
      using L by (metis append_Nil length_map list.map(1))+
    have parts: "length (filter (\<lambda>w. w \<notin> I \<and> w \<in> V) xs)
        + length (filter (\<lambda>w. w \<notin> I \<and> w \<notin> V) xs)
        + length (filter (\<lambda>w. w \<in> I) xs) = length xs" for xs :: "ustring list"
      by (induction xs) auto
    show ?thesis
      unfolding lens by (rule parts)
  qed
  then show "length (known_words r) + length (unknown_words r) + length (ignored_words r) = unique_words r"
    by (simp only: r length_sort_by_count length_map)
  have "card (set ws) = length ?keys"
    using Counter_keys [of ws] distinct_card [of ?keys] by simp
  then show "unique_words r = card (set ws)"
    by (simp add: r)
qed

text \<open>
  Claim C5. Every unique word of the analysed tokens is in exactly one of the known, the
  ignored and the unknown list of the result; a word that is in the vocabulary set and in
  the ignored set is in the ignored list; and the numbers of entries of the three lists
  add up to the number of unique words.
\<close>

theorem classification_partition:
  fixes service cache V I ws
  defines "r \<equiv> fst (analyze_text_vocabulary service cache V I ws)"
  shows "(\<forall>w \<in> set ws.
            (w \<in> word ` set (known_words r) \<and> w \<notin> word ` set (ignored_words r)
               \<and> w \<notin> word ` set (unknown_words r))
          \<or> (w \<notin> word ` set (known_words r) \<and> w \<in> word ` set (ignored_words r)
               \<and> w \<notin> word ` set (unknown_words r))
          \<or> (w \<notin> word ` set (known_words r) \<and> w \<notin> word ` set (ignored_words r)
               \<and> w \<in> word ` set (unknown_words r)))
       \<and> (\<forall>w \<in> set ws. w \<in> V \<and> w \<in> I \<longrightarrow> w \<in> word ` set (ignored_words r))
       \<and> length (known_words r) + length (unknown_words r) + length (ignored_words r)
           = unique_words r
       \<and> unique_words r = card (set ws)"
  unfolding r_def
  using analysis_categories [of service cache V I ws]
  by (intro conjI ballI) auto

theorem classification_partition_witness:
  "[12398 :: nat] \<in> set [[29483], [12398], [29483], [29356]]
   \<and> [12398 :: nat] \<in> {[29483], [12398]} \<and> [12398 :: nat] \<in> {[12398]}
   \<and> [12398] \<in> word ` set (ignored_words (fst (analyze_text_vocabulary
         (\<lambda>u. TermRequestException) None {[29483], [12398]} {[12398]}
         [[29483], [12398], [29483], [29356]])))
   \<and> [12398] \<notin> word ` set (known_words (fst (analyze_text_vocabulary
         (\<lambda>u. TermRequestException) None {[29483], [12398]} {[12398]}
         [[29483], [12398], [29483], [29356]])))
   \<and> unique_words (fst (analyze_text_vocabulary
         (\<lambda>u. TermRequestException) None {[29483], [12398]} {[12398]}
         [[29483], [12398], [29483], [29356]])) = 3"
proof -
  let ?ws = "[[29483], [12398], [29483], [29356 :: nat]]"
  let ?r = "fst (analyze_text_vocabulary (\<lambda>u. TermRequestException) None
              {[29483], [12398]} {[12398]} ?ws)"
  note T = classification_partition [where service = "\<lambda>u. TermRequestException" and cache = None
      and V = "{[29483], [12398]}" and I = "{[12398]}" and ws = ?ws]
  have m: "[12398] \<in> set ?ws" and v: "[12398] \<in> {[29483], [12398 :: nat]}"
    and i: "[12398] \<in> {[12398 :: nat]}"
    by simp_all
  have ign: "[12398] \<in> word ` set (ignored_words ?r)"
    using T [THEN conjunct2, THEN conjunct1, THEN bspec, OF m] v i by blast
  have kn: "[12398] \<notin> word ` set (known_words ?r)"
    using T [THEN conjunct1, THEN bspec, OF m] ign by blast
  have "card (set ?ws) = 3"
    by (subst card_set) simp
  then have un: "unique_words ?r = 3"
    using T [THEN conjunct2, THEN conjunct2, THEN conjunct2] by simp
  show ?thesis
    by (rule conjI [OF m conjI [OF v conjI [OF i conjI [OF ign conjI [OF kn un]]]]])
qed

subsection \<open>Comprehension rate and difficulty level\<close>

lemma analysis_rate:
  fixes service cache V I ws
  defines "r \<equiv> fst (analyze_text_vocabulary service cache V I ws)"
  shows "known_word_count r = sum_list (map count (known_words r))"
    and "unknown_word_count r = sum_list (map count (unknown_words r))"
    and "ignored_word_count r = sum_list (map count (ignored_words r))"
    and "comprehension_rate r =
          (if known_word_count r + unknown_word_count r > 0
           then py_float_mul (py_truediv (known_word_count r)
                                (known_word_count r + unknown_word_count r)) 100
           else 0)"
    and "difficulty_level r = calculate_difficulty_level (comprehension_rate r)"
  unfolding r_def analyze_text_vocabulary_def
  by (simp_all add: Let_def split: prod.splits)

lemma rate_80_20: "py_float_mul (py_truediv 80 100) 100 = 80"
  by code_simp

lemma level_80: "calculate_difficulty_level 80 = Intermediate_label"
  by (simp add: calculate_difficulty_level_def)

text \<open>
  Claim C2, as the code has it. The rate is computed from the summed counts of the known and
  of the unknown list only: it is 0 when their sum is 0, and otherwise the float quotient
  known / (known + unknown) times 100; the counts of the ignored list do not enter. With 80
  known and 20 unknown occurrences the rate is 80.0, and the level of 80.0 is the third
  band, \<open>3\<star> Intermediate\<close> (75 or more, below 85), not Elementary.
\<close>

theorem comprehension_rate_80_20:
  fixes service cache V I ws
  defines "r \<equiv> fst (analyze_text_vocabulary service cache V I ws)"
  shows "known_word_count r = sum_list (map count (known_words r))
       \<and> unknown_word_count r = sum_list (map count (unknown_words r))
       \<and> comprehension_rate r =
          (if known_word_count r + unknown_word_count r > 0
           then py_float_mul (py_truediv (known_word_count r)
                                (known_word_count r + unknown_word_count r)) 100
           else 0)
       \<and> (known_word_count r = 80 \<and> unknown_word_count r = 20 \<longrightarrow>
            comprehension_rate r = 80
            \<and> difficulty_level r =
                [51, 9733, 32, 73, 110, 116, 101, 114, 109, 101, 100, 105, 97, 116, 101])"
proof (intro conjI impI)
  show "known_word_count r = sum_list (map count (known_words r))"
    unfolding r_def by (rule analysis_rate)
  show "unknown_word_count r = sum_list (map count (unknown_words r))"
    unfolding r_def by (rule analysis_rate)
  show rate: "comprehension_rate r =
          (if known_word_count r + unknown_word_count r > 0
           then py_float_mul (py_truediv (known_word_count r)
                                (known_word_count r + unknown_word_count r)) 100
           else 0)"
    unfolding r_def by (rule analysis_rate)
  assume a: "known_word_count r = 80 \<and> unknown_word_count r = 20"
  with rate show r80: "comprehension_rate r = 80"
    by (simp add: rate_80_20)
  have "difficulty_level r = calculate_difficulty_level (comprehension_rate r)"
    unfolding r_def by (rule analysis_rate)
  then show "difficulty_level r =
                [51, 9733, 32, 73, 110, 116, 101, 114, 109, 101, 100, 105, 97, 116, 101]"
    using r80 by (simp add: level_80 Intermediate_label_def)
qed

lemma counter_add_fresh:
  "w \<notin> set (map fst al) \<Longrightarrow> counter_add al w = al @ [(w, 1)]"
  by (induction al w rule: counter_add.induct) auto

lemma counter_add_last:
  "w \<notin> set (map fst al) \<Longrightarrow> counter_add (al @ [(w, c)]) w = al @ [(w, c + 1)]"
  by (induction al w rule: counter_add.induct) auto

lemma counter_add_run:
  "w \<notin> set (map fst al) \<Longrightarrow>
     foldl counter_add (al @ [(w, c)]) (replicate n w) = al @ [(w, c + int n)]"
  by (induction n arbitrary: c) (simp_all add: counter_add_last)

lemma counter_add_fresh_run:
  "w \<notin> set (map fst al) \<Longrightarrow>
     foldl counter_add al (replicate (Suc n) w) = al @ [(w, 1 + int n)]"
  by (simp add: counter_add_fresh counter_add_run)

lemma Counter_three_runs:
  assumes "a \<noteq> b" "a \<noteq> c" "b \<noteq> c"
  shows "Counter (replicate (Suc k) a @ replicate (Suc m) b @ replicate (Suc n) c) =
           [(a, 1 + int k), (b, 1 + int m), (c, 1 + int n)]"
proof -
  have 1: "foldl counter_add [] (replicate (Suc k) a) = [(a, 1 + int k)]"
    using counter_add_fresh_run [of a "[]" k] by simp
  have 2: "foldl counter_add [(a, 1 + int k)] (replicate (Suc m) b) = [(a, 1 + int k), (b, 1 + int m)]"
    using counter_add_fresh_run [of b "[(a, 1 + int k)]" m] assms by simp
  have 3: "foldl counter_add [(a, 1 + int k), (b, 1 + int m)] (replicate (Suc n) c)
            = [(a, 1 + int k), (b, 1 + int m), (c, 1 + int n)]"
    using counter_add_fresh_run [of c "[(a, 1 + int k), (b, 1 + int m)]" n] assms by simp
  show ?thesis
    unfolding Counter_def foldl_append 1 2 3 ..
qed

lemma Counter_80_20_100:
  "Counter (replicate 80 [29483] @ replicate 20 [29356] @ replicate 100 [12398]) =
     [([29483], 80), ([29356], 20), ([12398], 100)]"
  using Counter_three_runs [of "[29483]" "[29356]" "[12398]" 79 19 99] by simp

text \<open>
  An analysis with 80 known, 20 unknown and 100 ignored occurrences, evaluated.
\<close>

lemma analysis_80_20_100:
  "known_word_count (fst (analyze_text_vocabulary (\<lambda>u. TermRequestException) None
       {[29483]} {[12398]}
       (replicate 80 [29483] @ replicate 20 [29356] @ replicate 100 [12398]))) = 80"
  "unknown_word_count (fst (analyze_text_vocabulary (\<lambda>u. TermRequestException) None
       {[29483]} {[12398]}
       (replicate 80 [29483] @ replicate 20 [29356] @ replicate 100 [12398]))) = 20"
  "ignored_word_count (fst (analyze_text_vocabulary (\<lambda>u. TermRequestException) None
       {[29483]} {[12398]}
       (replicate 80 [29483] @ replicate 20 [29356] @ replicate 100 [12398]))) = 100"
  "difficulty_level (fst (analyze_text_vocabulary (\<lambda>u. TermRequestException) None
       {[29483]} {[12398]}
       (replicate 80 [29483] @ replicate 20 [29356] @ replicate 100 [12398])))
     = [51, 9733, 32, 73, 110, 116, 101, 114, 109, 101, 100, 105, 97, 116, 101]"
  by (simp_all add: analyze_text_vocabulary_def Counter_80_20_100 classify_word_def
      get_yomitan_frequency_data_def cache_lookup_def deduplicate_word_list_def
      sort_by_count_def rate_80_20 level_80 Intermediate_label_def Let_def)

theorem comprehension_rate_80_20_witness:
  "known_word_count (fst (analyze_text_vocabulary (\<lambda>u. TermRequestException) None
       {[29483]} {[12398]}
       (replicate 80 [29483] @ replicate 20 [29356] @ replicate 100 [12398]))) = 80
   \<and> unknown_word_count (fst (analyze_text_vocabulary (\<lambda>u. TermRequestException) None
       {[29483]} {[12398]}
       (replicate 80 [29483] @ replicate 20 [29356] @ replicate 100 [12398]))) = 20
   \<and> ignored_word_count (fst (analyze_text_vocabulary (\<lambda>u. TermRequestException) None
       {[29483]} {[12398]}
       (replicate 80 [29483] @ replicate 20 [29356] @ replicate 100 [12398]))) = 100
   \<and> comprehension_rate (fst (analyze_text_vocabulary (\<lambda>u. TermRequestException) None
       {[29483]} {[12398]}
       (replicate 80 [29483] @ replicate 20 [29356] @ replicate 100 [12398]))) = 80
   \<and> difficulty_level (fst (analyze_text_vocabulary (\<lambda>u. TermRequestException) None
       {[29483]} {[12398]}
       (replicate 80 [29483] @ replicate 20 [29356] @ replicate 100 [12398])))
       = [51, 9733, 32, 73, 110, 116, 101, 114, 109, 101, 100, 105, 97, 116, 101]"
proof -
  note T = comprehension_rate_80_20 [where service = "\<lambda>u. TermRequestException" and cache = None
      and V = "{[29483]}" and I = "{[12398]}"
      and ws = "replicate 80 [29483] @ replicate 20 [29356] @ replicate 100 [12398]"]
  note h = conjI [OF analysis_80_20_100(1) analysis_80_20_100(2)]
  note c = T [THEN conjunct2, THEN conjunct2, THEN conjunct2, THEN mp, OF h]
  show ?thesis
    by (rule conjI [OF analysis_80_20_100(1) conjI [OF analysis_80_20_100(2)
          conjI [OF analysis_80_20_100(3) c]]])
qed

text \<open>
  With 80 known, 20 unknown and 100 ignored occurrences the level is \<open>3\<star> Intermediate\<close>,
  which is neither \<open>Elementary\<close> nor \<open>2\<star> Elementary\<close>.
\<close>

theorem difficulty_80_is_not_elementary_counterexample:
  "known_word_count (fst (analyze_text_vocabulary (\<lambda>u. TermRequestException) None
       {[29483]} {[12398]}
       (replicate 80 [29483] @ replicate 20 [29356] @ replicate 100 [12398]))) = 80
   \<and> unknown_word_count (fst (analyze_text_vocabulary (\<lambda>u. TermRequestException) None
       {[29483]} {[12398]}
       (replicate 80 [29483] @ replicate 20 [29356] @ replicate 100 [12398]))) = 20
   \<and> difficulty_level (fst (analyze_text_vocabulary (\<lambda>u. TermRequestException) None
       {[29483]} {[12398]}
       (replicate 80 [29483] @ replicate 20 [29356] @ replicate 100 [12398])))
       \<noteq> [69, 108, 101, 109, 101, 110, 116, 97, 114, 121]
   \<and> difficulty_level (fst (analyze_text_vocabulary (\<lambda>u. TermRequestException) None
       {[29483]} {[12398]}
       (replicate 80 [29483] @ replicate 20 [29356] @ replicate 100 [12398])))
       \<noteq> [50, 9733, 32, 69, 108, 101, 109, 101, 110, 116, 97, 114, 121]"
  by (simp only: analysis_80_20_100) simp

subsection \<open>Tokenizer client\<close>

text \<open>
  Claim C1, as the code has it. When the request raises a timeout, a connection error, another
  request exception or any other exception, and when a response with status 200 has a body
  that cannot be parsed or read, \<open>_tokenize_single_chunk\<close> returns the tokens of the fallback
  tokenizer for the chunk with \<open>succeeded = true\<close>. When the endpoint answers with a status
  other than 200, it returns the empty token list with \<open>succeeded = false\<close>.
\<close>

theorem tokenize_single_chunk_failures:
  assumes "service (posted st @ [(text, max_scan_length)]) = resp"
  shows "(resp = Timeout \<or> resp = ConnectionError \<or> resp = RequestException \<or> resp = OtherException
            \<longrightarrow> fst (tokenize_single_chunk service st text max_scan_length)
                  = (simple_japanese_tokenize text, True))
       \<and> (resp = HttpResponse 200 None
            \<longrightarrow> fst (tokenize_single_chunk service st text max_scan_length)
                  = (simple_japanese_tokenize text, True))
       \<and> (\<forall>result. resp = HttpResponse 200 (Some result) \<and> extract_words result = None
            \<longrightarrow> fst (tokenize_single_chunk service st text max_scan_length)
                  = (simple_japanese_tokenize text, True))
       \<and> (\<forall>status_code body. resp = HttpResponse status_code body \<and> status_code \<noteq> 200
            \<longrightarrow> fst (tokenize_single_chunk service st text max_scan_length) = ([], False))"
  using assms by (auto simp: tokenize_single_chunk_def Let_def)

lemma fallback_example:
  "simple_japanese_tokenize [29105, 12356, 32, 29483, 12290] = [[29105, 12356], [29483], [12290]]"
  by (simp add: simple_japanese_tokenize_def match_adjective_def common_i_adjectives_def
      py_isspace_def)

theorem tokenize_single_chunk_failures_witness:
  "fst (tokenize_single_chunk (\<lambda>requests. Timeout)
          \<lparr> active_yomitan_operations = 0, posted = [] \<rparr> [29105, 12356, 32, 29483, 12290] 50)
     = ([[29105, 12356], [29483], [12290]], True)
   \<and> (503 :: int) \<noteq> 200
   \<and> fst (tokenize_single_chunk (\<lambda>requests. HttpResponse 503 None)
          \<lparr> active_yomitan_operations = 0, posted = [] \<rparr> [29105, 12356, 32, 29483, 12290] 50)
     = ([], False)"
  using tokenize_single_chunk_failures [of "\<lambda>requests. Timeout"
      "\<lparr> active_yomitan_operations = 0, posted = [] \<rparr>" "[29105, 12356, 32, 29483, 12290]" 50 Timeout]
    tokenize_single_chunk_failures [of "\<lambda>requests. HttpResponse 503 None"
      "\<lparr> active_yomitan_operations = 0, posted = [] \<rparr>" "[29105, 12356, 32, 29483, 12290]" 50
      "HttpResponse 503 None"]
    fallback_example
  by simp

text \<open>
  A response with status 500: the caller is told that the chunk failed and gets no tokens,
  although the fallback tokenizer has tokens for the chunk.
\<close>

theorem non_200_reports_failure_counterexample:
  "fst (tokenize_single_chunk (\<lambda>requests. HttpResponse 500 None)
          \<lparr> active_yomitan_operations = 0, posted = [] \<rparr> [29105, 12356, 32, 29483, 12290] 50)
     = ([], False)
   \<and> fst (tokenize_single_chunk (\<lambda>requests. HttpResponse 500 None)
          \<lparr> active_yomitan_operations = 0, posted = [] \<rparr> [29105, 12356, 32, 29483, 12290] 50)
     \<noteq> (simple_japanese_tokenize [29105, 12356, 32, 29483, 12290], True)"
  by (simp add: tokenize_single_chunk_def Let_def)

lemma py_strip_all_space: "list_all py_isspace t \<Longrightarrow> py_strip t = []"
proof -
  assume "list_all py_isspace t"
  then have "dropWhile py_isspace t = []"
    by (induction t) simp_all
  then show ?thesis
    unfolding py_strip_def by (simp only: rev.simps dropWhile.simps)
qed

text \<open>
  Claim C10. For a text that is \<open>None\<close>, empty or made of whitespace only,
  \<open>tokenize_with_yomitan_api\<close> returns the empty token list with \<open>succeeded = true\<close>, and the
  state is the one it started in: no request has been posted.
\<close>

theorem tokenize_blank_text:
  "tokenize_with_yomitan_api service st None max_scan_length chunk_size = Some (([], True), st)
   \<and> tokenize_with_yomitan_api service st (Some []) max_scan_length chunk_size = Some (([], True), st)
   \<and> (list_all py_isspace t \<longrightarrow>
        tokenize_with_yomitan_api service st (Some t) max_scan_length chunk_size = Some (([], True), st))"
  by (simp add: tokenize_with_yomitan_api_def py_strip_all_space)

theorem tokenize_blank_text_witness:
  "list_all py_isspace [32, 12288, 10, 9]
   \<and> tokenize_with_yomitan_api (\<lambda>requests. Timeout)
        \<lparr> active_yomitan_operations = 0, posted = [] \<rparr> (Some [32, 12288, 10, 9]) 50 None
      = Some (([], True), \<lparr> active_yomitan_operations = 0, posted = [] \<rparr>)"
  using tokenize_blank_text [of "\<lambda>requests. Timeout" "\<lparr> active_yomitan_operations = 0, posted = [] \<rparr>"
      50 None "[32, 12288, 10, 9]"]
  by (simp add: py_isspace_def)

subsection \<open>Token filter\<close>

lemma filter_loop:
  "foldl (\<lambda>filtered_words w. if keep_token w then filtered_words @ [w] else filtered_words) acc words
     = acc @ filter keep_token words"
  by (induction words arbitrary: acc) simp_all

lemma filter_japanese_tokens_filter: "filter_japanese_tokens words = filter keep_token words"
  by (simp add: filter_japanese_tokens_def filter_loop)

text \<open>
  Claim C9. Filtering a filtered list changes nothing, and the filtered list is the input
  with some tokens left out: no token is added and the order is kept.
\<close>

theorem filter_idempotent:
  "filter_japanese_tokens (filter_japanese_tokens x) = filter_japanese_tokens x
   \<and> subseq (filter_japanese_tokens x) x"
  by (simp add: filter_japanese_tokens_filter)

lemma threshold_examples:
  "py_float_mul (nearest_float (7 / 10)) 1 = 3152519739159347 / 4503599627370496"
  "py_float_mul (nearest_float (7 / 10)) 2 = 3152519739159347 / 2251799813685248"
  "py_float_mul (nearest_float (7 / 10)) 3 = 1182194902184755 / 562949953421312"
  "py_float_mul (nearest_float (7 / 10)) 4 = 3152519739159347 / 1125899906842624"
  by code_simp+

lemma keep_examples:
  "keep_token [29483]" "\<not> keep_token [12399]" "\<not> keep_token [12290]"
  "keep_token [12391, 12377]" "keep_token [97, 98, 99]" "\<not> keep_token [97, 12290, 12290, 12290]"
  by (simp_all add: keep_token_def py_strip_def py_isspace_def match_to_end_def one_or_more_def
      is_symbol_def symbol_chars_def threshold_examples particle_chars_def important_single_def
      allowed_short_def ending_chars_def is_japanese_def is_hiragana_def is_katakana_def)

theorem filter_idempotent_witness:
  "filter_japanese_tokens (filter_japanese_tokens
      [[29483], [12399], [12290], [12391, 12377], [97, 98, 99], [97, 12290, 12290, 12290]])
     = [[29483], [12391, 12377], [97, 98, 99]]
   \<and> subseq [[29483], [12391, 12377], [97, 98, 99]]
        [[29483], [12399], [12290], [12391, 12377], [97, 98, 99], [97, 12290, 12290, 12290]]"
  using filter_idempotent
      [of "[[29483], [12399], [12290], [12391, 12377], [97, 98, 99], [97, 12290, 12290, 12290]]"]
  by (simp add: filter_japanese_tokens_filter keep_examples)

end
